theory Spec2Isabelle
  imports Main
begin

section \<open>Python values\<close>

text \<open>
  The script of \<^verbatim>\<open>agent.py\<close> handles values whose type is not fixed: the final output of
  a plan run, the decoded content of the state file, the fields of a Slack message. They are
  modelled by one datatype. A dictionary is an association list with string keys, looked up
  with \<open>map_of\<close>; \<open>PObj\<close> is an instance of another class, one that converts neither
  to an integer nor to a string (for example the schema class itself), named by a string. Strings are \<open>string\<close>: lists of characters
  with codes below 256. Floating point numbers are not part of this type.
\<close>

datatype pyval =
    PNone
  | PBool bool
  | PInt int
  | PStr string
  | PList "pyval list"
  | PDict "(string \<times> pyval) list"
  | PObj string

type_synonym pydict = "(string \<times> pyval) list"

text \<open>Truth value testing, as \<^verbatim>\<open>not x\<close>, \<^verbatim>\<open>x or y\<close> and \<^verbatim>\<open>if x\<close> do it.\<close>

fun truthy :: "pyval \<Rightarrow> bool" where
  "truthy PNone = False"
| "truthy (PBool b) = b"
| "truthy (PInt i) = (i \<noteq> 0)"
| "truthy (PStr s) = (s \<noteq> [])"
| "truthy (PList xs) = (xs \<noteq> [])"
| "truthy (PDict d) = (d \<noteq> [])"
| "truthy (PObj n) = True"

definition py_or :: "pyval \<Rightarrow> pyval \<Rightarrow> pyval" where
  "py_or x y = (if truthy x then x else y)"

text \<open>\<^verbatim>\<open>d.get(k, default)\<close> and \<^verbatim>\<open>d.setdefault(k, v)\<close> (the dictionary after the call).\<close>

definition dict_get :: "pydict \<Rightarrow> string \<Rightarrow> pyval \<Rightarrow> pyval" where
  "dict_get d k dflt = (case map_of d k of None \<Rightarrow> dflt | Some v \<Rightarrow> v)"

definition setdefault :: "string \<Rightarrow> pyval \<Rightarrow> pydict \<Rightarrow> pydict" where
  "setdefault k v d = (case map_of d k of None \<Rightarrow> d @ [(k, v)] | Some old \<Rightarrow> d)"

section \<open>Errors and the plan run\<close>

text \<open>
  \<^verbatim>\<open>PlanRunState\<close> is the enumeration of the agent runtime; a plan run carries its state,
  the value of its final output (\<open>None\<close> when the run has no final output, so that
  \<^verbatim>\<open>run.outputs.final_output.value\<close> raises) and the further attributes of
  \<^verbatim>\<open>run.outputs\<close> that \<^verbatim>\<open>getattr\<close> can find.
\<close>

datatype plan_run_state =
  NOT_STARTED | IN_PROGRESS | NEED_CLARIFICATION | READY_TO_RESUME | COMPLETE | FAILED

datatype error =
    RuntimeError string
  | PlanRunFailed plan_run_state
  | ValidationError
  | AttributeError
  | KeyError
  | ValueError
  | TypeError
  | JSONDecodeError
  | OSError
  | RecursionError
  | NotModelled
  | ServiceError string

record plan_run =
  state :: plan_run_state
  final_output :: "pyval option"
  outputs_attrs :: pydict

section \<open>The structured output and its validation\<close>

text \<open>
  \<^verbatim>\<open>GuardianRunOutput\<close> (lines 28-32): two required integers, an optional string that
  defaults to null and a string that defaults to \<^verbatim>\<open>"completed"\<close>.
\<close>

record GuardianRunOutput =
  scanned_count :: int
  alerted_count :: int
  last_ts :: "string option"
  safety_status :: string

text \<open>
  \<^verbatim>\<open>model_validate\<close> belongs to the validation library. Its integer fields take an
  integer, a boolean (as 0 or 1) or a string that the library reads as an integer; its
  string fields take a string only; an optional field takes null as well. Anything else,
  and a missing required field, raises the library's validation error. Which strings the
  library reads as integers, and as which, is a parameter \<open>str_int\<close> of the model: it
  answers the integer, or \<open>None\<close> for a string that is rejected.
\<close>

type_synonym int_reading = "string \<Rightarrow> int option"

fun validate_int :: "int_reading \<Rightarrow> pyval \<Rightarrow> int option" where
  "validate_int str_int (PInt i) = Some i"
| "validate_int str_int (PBool b) = Some (if b then 1 else 0)"
| "validate_int str_int (PStr s) = str_int s"
| "validate_int str_int v = None"

fun validate_str :: "pyval \<Rightarrow> string option" where
  "validate_str (PStr s) = Some s"
| "validate_str v = None"

fun validate_optional_str :: "pyval \<Rightarrow> string option option" where
  "validate_optional_str PNone = Some None"
| "validate_optional_str v = map_option Some (validate_str v)"

definition model_validate :: "int_reading \<Rightarrow> pyval \<Rightarrow> error + GuardianRunOutput" where
  "model_validate str_int obj =
     (case obj of
        PDict d \<Rightarrow>
          (case
             (case map_of d ''scanned_count'' of None \<Rightarrow> None | Some v \<Rightarrow> validate_int str_int v,
              case map_of d ''alerted_count'' of None \<Rightarrow> None | Some v \<Rightarrow> validate_int str_int v,
              case map_of d ''last_ts'' of None \<Rightarrow> Some None | Some v \<Rightarrow> validate_optional_str v,
              case map_of d ''safety_status'' of None \<Rightarrow> Some ''completed'' | Some v \<Rightarrow> validate_str v)
           of
             (Some s, Some a, Some l, Some st) \<Rightarrow>
               Inr \<lparr>scanned_count = s, alerted_count = a, last_ts = l, safety_status = st\<rparr>
           | other \<Rightarrow> Inl ValidationError)
      | other \<Rightarrow> Inl ValidationError)"

section \<open>The validation shim of run_agent (lines 213-241)\<close>

text \<open>
  \<open>fallback_output\<close> is the dictionary rebuilt when the raw output is not a dictionary
  (lines 221-229); \<open>ensure_fields\<close> is the four \<^verbatim>\<open>setdefault\<close> calls (lines 232-235);
  \<open>validate_output\<close> is the whole shim, from reading the raw output to the forced status.
\<close>

definition fallback_output :: "plan_run \<Rightarrow> pydict" where
  "fallback_output run =
     (let scanned = py_or (dict_get (outputs_attrs run) ''scanned_count'' PNone) (PInt 0);
          alerted = py_or (dict_get (outputs_attrs run) ''alerted_count'' PNone) (PInt 0)
      in [(''scanned_count'', scanned),
          (''alerted_count'', alerted),
          (''last_ts'', PNone),
          (''safety_status'', PStr ''failed'')])"

definition ensure_fields :: "pydict \<Rightarrow> pydict" where
  "ensure_fields d =
     setdefault ''safety_status'' (PStr ''failed'')
       (setdefault ''last_ts'' PNone
         (setdefault ''alerted_count'' (PInt 0)
           (setdefault ''scanned_count'' (PInt 0) d)))"

definition rebuild_output :: "plan_run \<Rightarrow> pyval \<Rightarrow> pydict" where
  "rebuild_output run raw = (case raw of PDict d \<Rightarrow> d | other \<Rightarrow> fallback_output run)"

definition validate_output :: "int_reading \<Rightarrow> plan_run \<Rightarrow> error + GuardianRunOutput" where
  "validate_output str_int run =
     (case final_output run of
        None \<Rightarrow> Inl AttributeError
      | Some raw \<Rightarrow>
          (case model_validate str_int (PDict (ensure_fields (rebuild_output run raw))) of
             Inl e \<Rightarrow> Inl e
           | Inr result \<Rightarrow> Inr (result\<lparr>safety_status := ''completed''\<rparr>)))"

section \<open>The environment and the agent runtime\<close>

text \<open>
  The environment is the process environment as \<^verbatim>\<open>os.getenv\<close> reads it after
  \<^verbatim>\<open>load_dotenv()\<close>. \<^verbatim>\<open>not os.getenv(name)\<close> holds for an unset and for an empty
  variable.
\<close>

type_synonym environ = "string \<Rightarrow> string option"

definition unset_or_empty :: "string option \<Rightarrow> bool" where
  "unset_or_empty v = (case v of None \<Rightarrow> True | Some s \<Rightarrow> s = [])"

text \<open>
  The prompt (lines 118-193) is a fixed template with two holes, filled with the parent's
  email address and the channel identifier; it is modelled by the two values that fill it.

  The agent runtime is outside the script. It is a record of what its calls answer:
  building the configuration, the tool registry and the client (lines 110-115), planning,
  running a plan, and waiting for a run that needs a clarification. Every call may raise.
  The calls that \<open>run_agent\<close> makes are recorded in the order it makes them.
\<close>

datatype prompt = Prompt string string

record 'p portia =
  connect :: "error option"
  plan :: "prompt \<Rightarrow> error + 'p"
  run_plan :: "'p \<Rightarrow> error + plan_run"
  wait_for_ready :: "plan_run \<Rightarrow> error + plan_run"

datatype 'p call = Connect | Plan prompt | RunPlan 'p | WaitForReady plan_run

text \<open>Lines 205-208: the optional wait, with the calls it makes.\<close>

definition await_ready :: "'p portia \<Rightarrow> plan_run \<Rightarrow> 'p call list \<times> (error + plan_run)" where
  "await_ready portia run =
     (if state run = NEED_CLARIFICATION
      then ([WaitForReady run], wait_for_ready portia run)
      else ([], Inr run))"

text \<open>Lines 210-211: the check of the terminal state.\<close>

definition require_complete :: "plan_run \<Rightarrow> error + plan_run" where
  "require_complete run =
     (if state run \<noteq> COMPLETE then Inl (PlanRunFailed (state run)) else Inr run)"

text \<open>
  \<open>run_agent\<close> (lines 87-241). Reading the state file at line 102 only chooses what is
  printed and cannot raise, so it leaves no trace in the result. The validation library's
  reading of strings as integers is passed on to the validation at the end.
\<close>

definition run_agent ::
  "int_reading \<Rightarrow> environ \<Rightarrow> 'p portia \<Rightarrow> 'p call list \<times> (error + GuardianRunOutput)" where
  "run_agent str_int env portia =
     (let parent_email = env ''PARENT_EMAIL'';
          channel_id = env ''SLACK_CHANNEL_ID''
      in
        if unset_or_empty parent_email \<or> unset_or_empty channel_id
        then ([], Inl (RuntimeError ''PARENT_EMAIL and SLACK_CHANNEL_ID must be set in the environment.''))
        else
          (case connect portia of
             Some e \<Rightarrow> ([Connect], Inl e)
           | None \<Rightarrow>
               let prompt = Prompt (case parent_email of Some s \<Rightarrow> s | None \<Rightarrow> [])
                                   (case channel_id of Some s \<Rightarrow> s | None \<Rightarrow> [])
               in
                 (case plan portia prompt of
                    Inl e \<Rightarrow> ([Connect, Plan prompt], Inl e)
                  | Inr pl \<Rightarrow>
                      (case run_plan portia pl of
                         Inl e \<Rightarrow> ([Connect, Plan prompt, RunPlan pl], Inl e)
                       | Inr run \<Rightarrow>
                           (case await_ready portia run of
                              (cs, Inl e) \<Rightarrow> ([Connect, Plan prompt, RunPlan pl] @ cs, Inl e)
                            | (cs, Inr run') \<Rightarrow>
                                ([Connect, Plan prompt, RunPlan pl] @ cs,
                                 case require_complete run' of
                                   Inl e \<Rightarrow> Inl e
                                 | Inr run'' \<Rightarrow> validate_output str_int run''))))))"

section \<open>The state file\<close>

text \<open>
  The file \<^verbatim>\<open>.guardian_state.json\<close> is missing, present with a text content, or present
  but not readable (opening or reading it raises). A write succeeds, fails when the file is
  opened (the file is left as it was), or fails while the text is written (the file, already
  truncated, keeps a prefix of the text).
\<close>

datatype file_state = Missing | Unreadable | Content string

datatype write_outcome = WriteOk | OpenFails | DumpFails nat

datatype log_line = SavedState string | ErrorSavingState error

text \<open>
  \<^verbatim>\<open>json.dump({"last_ts": last_ts}, f, indent=2)\<close> for a string \<^verbatim>\<open>last_ts\<close>: the
  standard encoder with its default \<^verbatim>\<open>ensure_ascii\<close>, which keeps the printable ASCII
  characters but the quote and the backslash, has short escapes for five control
  characters and writes every other character as \<^verbatim>\<open>\u00xx\<close> in lower-case hexadecimal.
\<close>

definition dquote :: char where "dquote = CHR 0x22"
definition backslash :: char where "backslash = CHR 0x5C"
definition newline :: char where "newline = CHR 0x0A"

definition hex_digit :: "nat \<Rightarrow> char" where
  "hex_digit n = (if n < 10 then char_of (48 + n) else char_of (87 + n))"

definition json_escape_char :: "char \<Rightarrow> string" where
  "json_escape_char c =
     (if c = dquote then [backslash, dquote]
      else if c = backslash then [backslash, backslash]
      else if c = newline then [backslash, CHR ''n'']
      else if c = CHR 0x0D then [backslash, CHR ''r'']
      else if c = CHR 0x09 then [backslash, CHR ''t'']
      else if c = CHR 0x08 then [backslash, CHR ''b'']
      else if c = CHR 0x0C then [backslash, CHR ''f'']
      else if 32 \<le> (of_char c :: nat) \<and> (of_char c :: nat) \<le> 126 then [c]
      else [backslash, CHR ''u'', CHR ''0'', CHR ''0'',
            hex_digit ((of_char c :: nat) div 16), hex_digit ((of_char c :: nat) mod 16)])"

definition json_string :: "string \<Rightarrow> string" where
  "json_string s = dquote # concat (map json_escape_char s) @ [dquote]"

definition json_dump_state :: "string \<Rightarrow> string" where
  "json_dump_state ts =
     ''{'' @ [newline] @ ''  '' @ json_string ''last_ts'' @ '': '' @ json_string ts @ [newline] @ ''}''"

text \<open>\<^verbatim>\<open>str.strip()\<close>: white space is removed at both ends.\<close>

definition py_isspace :: "char \<Rightarrow> bool" where
  "py_isspace c =
     (let n = (of_char c :: nat)
      in (9 \<le> n \<and> n \<le> 13) \<or> (28 \<le> n \<and> n \<le> 32) \<or> n = 133 \<or> n = 160)"

definition strip :: "string \<Rightarrow> string" where
  "strip s = rev (dropWhile py_isspace (rev (dropWhile py_isspace s)))"

text \<open>
  \<open>get_guardian_state\<close> (lines 36-58). \<open>read_state\<close> is the body of the \<^verbatim>\<open>try\<close>
  block, with every exception it can raise; the handler turns each of them into the empty
  string. The decoder \<^verbatim>\<open>json.loads\<close> is a parameter: it answers a value or raises.
\<close>

definition read_state :: "(string \<Rightarrow> error + pyval) \<Rightarrow> file_state \<Rightarrow> error + pyval" where
  "read_state loads fs =
     (case fs of
        Missing \<Rightarrow> Inr (PStr [])
      | Unreadable \<Rightarrow> Inl OSError
      | Content text \<Rightarrow>
          (let content = strip text
           in if content = [] then Inr (PStr [])
              else
                (case loads content of
                   Inl e \<Rightarrow> Inl e
                 | Inr state_data \<Rightarrow>
                     (case state_data of
                        PDict d \<Rightarrow> Inr (dict_get d ''last_ts'' (PStr []))
                      | other \<Rightarrow> Inl AttributeError))))"

definition get_guardian_state :: "(string \<Rightarrow> error + pyval) \<Rightarrow> file_state \<Rightarrow> pyval" where
  "get_guardian_state loads fs =
     (case read_state loads fs of Inl e \<Rightarrow> PStr [] | Inr v \<Rightarrow> v)"

text \<open>
  \<open>save_guardian_state\<close> (lines 61-70). \<open>write_state\<close> is the body of the \<^verbatim>\<open>try\<close>
  block; the handler prints the error and returns.
\<close>

definition write_state :: "write_outcome \<Rightarrow> string \<Rightarrow> file_state \<Rightarrow> file_state \<times> (error + unit)" where
  "write_state io ts fs =
     (case io of
        WriteOk \<Rightarrow> (Content (json_dump_state ts), Inr ())
      | OpenFails \<Rightarrow> (fs, Inl OSError)
      | DumpFails n \<Rightarrow> (Content (take n (json_dump_state ts)), Inl OSError))"

definition save_guardian_state :: "write_outcome \<Rightarrow> string \<Rightarrow> file_state \<Rightarrow> file_state \<times> log_line" where
  "save_guardian_state io ts fs =
     (case write_state io ts fs of
        (fs', Inr u) \<Rightarrow> (fs', SavedState ts)
      | (fs', Inl e) \<Rightarrow> (fs', ErrorSavingState e))"

section \<open>The JSON decoder\<close>

text \<open>
  \<^verbatim>\<open>json.loads\<close> is a parameter of \<open>get_guardian_state\<close>. \<open>json_loads\<close> is the standard
  decoder on the texts whose values are in \<open>pyval\<close>: white space, the three literals,
  integers, strings with their escapes (strict: no raw control character), arrays and
  objects, where a repeated key keeps its first place and its last value. A number with a
  fraction or an exponent, \<^verbatim>\<open>NaN\<close>, \<^verbatim>\<open>Infinity\<close> and an escape of a character beyond
  code 255 have no value in \<open>pyval\<close>; for them the decoder here answers \<open>NotModelled\<close>,
  and what the script does with such a text is not described by it. The statements below
  apply it to texts without them.
  The scanner of values takes a bound on the values it may open one inside or after
  another, as the interpreter bounds its recursion; \<open>json_loads\<close> starts it with one
  more than the length of the text.
\<close>

definition json_ws :: "char \<Rightarrow> bool" where
  "json_ws c = (c = CHR '' '' \<or> c = CHR 0x09 \<or> c = newline \<or> c = CHR 0x0D)"

definition skip_ws :: "string \<Rightarrow> string" where
  "skip_ws s = dropWhile json_ws s"

definition hex_val :: "char \<Rightarrow> nat option" where
  "hex_val c =
     (let n = (of_char c :: nat)
      in if 48 \<le> n \<and> n \<le> 57 then Some (n - 48)
         else if 97 \<le> n \<and> n \<le> 102 then Some (n - 87)
         else if 65 \<le> n \<and> n \<le> 70 then Some (n - 55)
         else None)"

definition unescape_char :: "char \<Rightarrow> char option" where
  "unescape_char e =
     (if e = dquote then Some dquote
      else if e = backslash then Some backslash
      else if e = CHR ''/'' then Some (CHR ''/'')
      else if e = CHR ''b'' then Some (CHR 0x08)
      else if e = CHR ''f'' then Some (CHR 0x0C)
      else if e = CHR ''n'' then Some newline
      else if e = CHR ''r'' then Some (CHR 0x0D)
      else if e = CHR ''t'' then Some (CHR 0x09)
      else None)"

definition decode_uXXXX :: "string \<Rightarrow> (nat \<times> string) option" where
  "decode_uXXXX s =
     (case s of
        h1 # h2 # h3 # h4 # rest \<Rightarrow>
          (case (hex_val h1, hex_val h2, hex_val h3, hex_val h4) of
             (Some a, Some b, Some c, Some d) \<Rightarrow> Some (((a * 16 + b) * 16 + c) * 16 + d, rest)
           | other \<Rightarrow> None)
      | other \<Rightarrow> None)"

function scanstring :: "string \<Rightarrow> error + (string \<times> string)" where
  "scanstring [] = Inl JSONDecodeError"
| "scanstring (c # cs) =
     (if c = dquote then Inr ([], cs)
      else if c = backslash then
        (case cs of
           [] \<Rightarrow> Inl JSONDecodeError
         | e # es \<Rightarrow>
             if e = CHR ''u'' then
               (case decode_uXXXX es of
                  None \<Rightarrow> Inl JSONDecodeError
                | Some (uni, rest) \<Rightarrow>
                    (case scanstring rest of
                       Inl x \<Rightarrow> Inl x
                     | Inr (s, r) \<Rightarrow> if uni < 256 then Inr (char_of uni # s, r) else Inl NotModelled))
             else
               (case unescape_char e of
                  None \<Rightarrow> Inl JSONDecodeError
                | Some ch \<Rightarrow>
                    (case scanstring es of Inl x \<Rightarrow> Inl x | Inr (s, r) \<Rightarrow> Inr (ch # s, r))))
      else if (of_char c :: nat) < 32 then Inl JSONDecodeError
      else (case scanstring cs of Inl x \<Rightarrow> Inl x | Inr (s, r) \<Rightarrow> Inr (c # s, r)))"
  by pat_completeness auto
termination
  by (relation "measure length")
    (auto simp: decode_uXXXX_def split: list.splits option.splits prod.splits)

fun digits_val :: "string \<Rightarrow> nat \<Rightarrow> nat option" where
  "digits_val [] acc = Some acc"
| "digits_val (c # cs) acc =
     (if 48 \<le> (of_char c :: nat) \<and> (of_char c :: nat) \<le> 57
      then digits_val cs (10 * acc + (of_char c - 48))
      else None)"

definition is_digit :: "char \<Rightarrow> bool" where
  "is_digit c = (48 \<le> (of_char c :: nat) \<and> (of_char c :: nat) \<le> 57)"

definition starts_float :: "string \<Rightarrow> bool" where
  "starts_float s =
     (case s of
        [] \<Rightarrow> False
      | c # cs \<Rightarrow>
          if c = CHR ''.'' then (case cs of [] \<Rightarrow> False | d # ds \<Rightarrow> is_digit d)
          else if c = CHR ''e'' \<or> c = CHR ''E'' then
            (case cs of
               [] \<Rightarrow> False
             | d # ds \<Rightarrow>
                 if d = CHR ''+'' \<or> d = CHR ''-'' then (case ds of [] \<Rightarrow> False | x # xs \<Rightarrow> is_digit x)
                 else is_digit d)
          else False)"

definition scan_number :: "string \<Rightarrow> error + (pyval \<times> string)" where
  "scan_number s =
     (let neg = (case s of [] \<Rightarrow> False | c # cs \<Rightarrow> c = CHR ''-'');
          body = (if neg then tl s else s)
      in case body of
           [] \<Rightarrow> Inl JSONDecodeError
         | d # ds \<Rightarrow>
             if \<not> is_digit d then Inl JSONDecodeError
             else
               (let digits = (if d = CHR ''0'' then [d] else d # takeWhile is_digit ds);
                    rest = drop (length digits) body
                in if starts_float rest then Inl NotModelled
                   else
                     (case digits_val digits 0 of
                        None \<Rightarrow> Inl JSONDecodeError
                      | Some n \<Rightarrow> Inr (PInt (if neg then - int n else int n), rest))))"

definition dict_set :: "pydict \<Rightarrow> string \<Rightarrow> pyval \<Rightarrow> pydict" where
  "dict_set d k v =
     (case map_of d k of
        None \<Rightarrow> d @ [(k, v)]
      | Some old \<Rightarrow> map (\<lambda>(k', v'). if k' = k then (k', v) else (k', v')) d)"

fun scan_once :: "nat \<Rightarrow> string \<Rightarrow> error + (pyval \<times> string)"
  and scan_object :: "nat \<Rightarrow> pydict \<Rightarrow> string \<Rightarrow> error + (pyval \<times> string)"
  and scan_array :: "nat \<Rightarrow> pyval list \<Rightarrow> string \<Rightarrow> error + (pyval \<times> string)"
where
  "scan_once 0 s = Inl RecursionError"
| "scan_once (Suc n) s =
     (case s of
        [] \<Rightarrow> Inl JSONDecodeError
      | c # cs \<Rightarrow>
          if c = dquote then
            (case scanstring cs of Inl e \<Rightarrow> Inl e | Inr (str, r) \<Rightarrow> Inr (PStr str, r))
          else if c = CHR ''{'' then
            (case skip_ws cs of
               [] \<Rightarrow> Inl JSONDecodeError
             | d # ds \<Rightarrow>
                 if d = CHR ''}'' then Inr (PDict [], ds)
                 else if d = dquote then scan_object n [] ds
                 else Inl JSONDecodeError)
          else if c = CHR ''['' then
            (case skip_ws cs of
               [] \<Rightarrow> Inl JSONDecodeError
             | d # ds \<Rightarrow>
                 if d = CHR '']'' then Inr (PList [], ds)
                 else scan_array n [] (d # ds))
          else if take 4 s = ''null'' then Inr (PNone, drop 4 s)
          else if take 4 s = ''true'' then Inr (PBool True, drop 4 s)
          else if take 5 s = ''false'' then Inr (PBool False, drop 5 s)
          else if take 3 s = ''NaN'' \<or> take 8 s = ''Infinity'' \<or> take 9 s = ''-Infinity''
          then Inl NotModelled
          else scan_number s)"
| "scan_object 0 pairs s = Inl RecursionError"
| "scan_object (Suc n) pairs s =
     (case scanstring s of
        Inl e \<Rightarrow> Inl e
      | Inr (key, r) \<Rightarrow>
          (case skip_ws r of
             [] \<Rightarrow> Inl JSONDecodeError
           | colon # r2 \<Rightarrow>
               if colon \<noteq> CHR '':'' then Inl JSONDecodeError
               else
                 (case scan_once n (skip_ws r2) of
                    Inl e \<Rightarrow> Inl e
                  | Inr (v, r4) \<Rightarrow>
                      (case skip_ws r4 of
                         [] \<Rightarrow> Inl JSONDecodeError
                       | d # ds \<Rightarrow>
                           if d = CHR ''}'' then Inr (PDict (dict_set pairs key v), ds)
                           else if d \<noteq> CHR '','' then Inl JSONDecodeError
                           else
                             (case skip_ws ds of
                                [] \<Rightarrow> Inl JSONDecodeError
                              | q # qs \<Rightarrow>
                                  if q = dquote then scan_object n (dict_set pairs key v) qs
                                  else Inl JSONDecodeError)))))"
| "scan_array 0 items s = Inl RecursionError"
| "scan_array (Suc n) items s =
     (case scan_once n s of
        Inl e \<Rightarrow> Inl e
      | Inr (v, r) \<Rightarrow>
          (case skip_ws r of
             [] \<Rightarrow> Inl JSONDecodeError
           | d # ds \<Rightarrow>
               if d = CHR '']'' then Inr (PList (items @ [v]), ds)
               else if d \<noteq> CHR '','' then Inl JSONDecodeError
               else scan_array n (items @ [v]) (skip_ws ds)))"

definition json_loads :: "string \<Rightarrow> error + pyval" where
  "json_loads s =
     (case scan_once (Suc (length s)) (skip_ws s) of
        Inl e \<Rightarrow> Inl e
      | Inr (v, r) \<Rightarrow> if skip_ws r = [] then Inr v else Inl JSONDecodeError)"

section \<open>Filtering messages\<close>

text \<open>
  \<open>filter_new_messages\<close> (lines 73-84). The conversion \<^verbatim>\<open>float(x)\<close>, the comparison of
  two floats and the formatting of a value that is not a string are parameters:
  \<open>to_float\<close> answers a float or raises, \<open>gt\<close> is \<^verbatim>\<open>>\<close> on floats, \<open>fmt\<close> is
  \<^verbatim>\<open>str(x)\<close>. A string is formatted as itself.
\<close>

record filtered =
  out_list :: "string list"
  out_str :: string
  new_messages :: "pydict list"

definition format_value :: "(pyval \<Rightarrow> string) \<Rightarrow> pyval \<Rightarrow> string" where
  "format_value fmt v = (case v of PStr s \<Rightarrow> s | other \<Rightarrow> fmt v)"

definition render :: "(pyval \<Rightarrow> string) \<Rightarrow> pydict \<Rightarrow> string" where
  "render fmt m =
     ''['' @ format_value fmt (dict_get m ''user'' (PStr ''?'')) @ ''] ''
       @ format_value fmt (dict_get m ''text'' (PStr []))"

fun join :: "string \<Rightarrow> string list \<Rightarrow> string" where
  "join sep [] = []"
| "join sep [x] = x"
| "join sep (x # y # ys) = x @ sep @ join sep (y # ys)"

text \<open>The list comprehension of line 80: the first message that raises ends it.\<close>

fun newer_than :: "(pyval \<Rightarrow> error + 'f) \<Rightarrow> ('f \<Rightarrow> 'f \<Rightarrow> bool) \<Rightarrow> 'f \<Rightarrow> pydict list \<Rightarrow> error + pydict list" where
  "newer_than to_float gt lim [] = Inr []"
| "newer_than to_float gt lim (m # ms) =
     (case map_of m ''ts'' of
        None \<Rightarrow> Inl KeyError
      | Some v \<Rightarrow>
          (case to_float v of
             Inl e \<Rightarrow> Inl e
           | Inr t \<Rightarrow>
               (case newer_than to_float gt lim ms of
                  Inl e \<Rightarrow> Inl e
                | Inr rest \<Rightarrow> Inr (if gt t lim then m # rest else rest))))"

definition filter_new_messages ::
  "(pyval \<Rightarrow> error + 'f) \<Rightarrow> ('f \<Rightarrow> 'f \<Rightarrow> bool) \<Rightarrow> (pyval \<Rightarrow> string) \<Rightarrow> pydict list \<Rightarrow> string \<Rightarrow> error + filtered" where
  "filter_new_messages to_float gt fmt slack_messages state_last_ts =
     (case
        (if state_last_ts = [] then Inr slack_messages
         else
           (case to_float (PStr state_last_ts) of
              Inl e \<Rightarrow> Inl e
            | Inr last_ts_float \<Rightarrow> newer_than to_float gt last_ts_float slack_messages))
      of
        Inl e \<Rightarrow> Inl e
      | Inr new \<Rightarrow>
          (let texts = map (render fmt) new
           in Inr \<lparr>out_list = texts, out_str = join [newline] texts, new_messages = new\<rparr>))"

text \<open>
  What the comprehension is meant to compute, written as a filter: a message is kept when
  its \<^verbatim>\<open>ts\<close> field converts to a float above the last one.
\<close>

definition ts_float :: "(pyval \<Rightarrow> error + 'f) \<Rightarrow> pydict \<Rightarrow> 'f option" where
  "ts_float to_float m =
     (case map_of m ''ts'' of
        None \<Rightarrow> None
      | Some v \<Rightarrow> (case to_float v of Inl e \<Rightarrow> None | Inr t \<Rightarrow> Some t))"

definition is_newer :: "(pyval \<Rightarrow> error + 'f) \<Rightarrow> ('f \<Rightarrow> 'f \<Rightarrow> bool) \<Rightarrow> 'f \<Rightarrow> pydict \<Rightarrow> bool" where
  "is_newer to_float gt lim m =
     (case ts_float to_float m of None \<Rightarrow> False | Some t \<Rightarrow> gt t lim)"

definition field_or :: "pydict \<Rightarrow> string \<Rightarrow> string \<Rightarrow> (pyval \<Rightarrow> string) \<Rightarrow> string" where
  "field_or m k dflt fmt =
     (case map_of m k of None \<Rightarrow> dflt | Some (PStr s) \<Rightarrow> s | Some v \<Rightarrow> fmt v)"

section \<open>The entry point\<close>

text \<open>
  \<open>main_block\<close> is the block under \<^verbatim>\<open>if __name__ == "__main__"\<close> (lines 244-285): every
  exception of \<open>run_agent\<close> is caught and printed; after a run that returned, the state is
  saved when \<^verbatim>\<open>out.last_ts\<close> is true. The check that follows the save (lines 269-278)
  only reads the file, inside its own \<^verbatim>\<open>try\<close>. \<open>script\<close> is the whole file run as a
  program: the check of the API key at import time (lines 21-24) is outside that
  \<^verbatim>\<open>try\<close>, so its exception ends the program. The result is the uncaught exception if
  any, the calls made to the agent runtime, and the state file at the end.
\<close>

definition main_block ::
  "int_reading \<Rightarrow> environ \<Rightarrow> 'p portia \<Rightarrow> write_outcome \<Rightarrow> file_state
     \<Rightarrow> 'p call list \<times> file_state" where
  "main_block str_int env portia io fs =
     (case run_agent str_int env portia of
        (cs, Inl e) \<Rightarrow> (cs, fs)
      | (cs, Inr out) \<Rightarrow>
          (case last_ts out of
             None \<Rightarrow> (cs, fs)
           | Some ts \<Rightarrow> if ts \<noteq> [] then (cs, fst (save_guardian_state io ts fs)) else (cs, fs)))"

definition script ::
  "int_reading \<Rightarrow> environ \<Rightarrow> 'p portia \<Rightarrow> write_outcome \<Rightarrow> file_state
     \<Rightarrow> error option \<times> 'p call list \<times> file_state" where
  "script str_int env portia io fs =
     (if unset_or_empty (env ''PORTIA_API_KEY'')
      then (Some (RuntimeError ''PORTIA_API_KEY is not set. Please add it to your .env file or environment variables.''), [], fs)
      else (None, main_block str_int env portia io fs))"

section \<open>Predicates and sample data for the statements\<close>

text \<open>
  A raw output is a dictionary or not. A dictionary is well typed when each of the four
  fields it has holds a value that the field's declared type takes: for the two counts an
  integer, a boolean or a string that is read as an integer; for \<^verbatim>\<open>last_ts\<close> a string
  or null; for \<^verbatim>\<open>safety_status\<close> a string. A field it does not have is no obstacle.
\<close>

fun is_dict :: "pyval \<Rightarrow> bool" where
  "is_dict (PDict d) = True"
| "is_dict v = False"






text \<open>An environment, plan runs and an agent runtime to evaluate the script on.\<close>

definition demo_env :: environ where
  "demo_env =
     [''PORTIA_API_KEY'' \<mapsto> ''key'', ''PARENT_EMAIL'' \<mapsto> ''p@example.org'',
      ''SLACK_CHANNEL_ID'' \<mapsto> ''C01'']"

definition demo_run :: "plan_run_state \<Rightarrow> pyval \<Rightarrow> plan_run" where
  "demo_run st out = \<lparr>state = st, final_output = Some out, outputs_attrs = []\<rparr>"

definition demo_portia :: "plan_run \<Rightarrow> plan_run \<Rightarrow> nat portia" where
  "demo_portia first ready =
     \<lparr>connect = None, plan = (\<lambda>p. Inr 7), run_plan = (\<lambda>pl. Inr first),
      wait_for_ready = (\<lambda>r. Inr ready)\<rparr>"

text \<open>
  A sample reading of strings as integers, for evaluating the script: plain decimal
  spellings with an optional sign. The statements hold for every reading.
\<close>

definition plain_decimal :: int_reading where
  "plain_decimal s =
     (case s of
        [] \<Rightarrow> None
      | c # cs \<Rightarrow>
          if c = CHR ''-'' then (if cs = [] then None else map_option (\<lambda>n. - int n) (digits_val cs 0))
          else if c = CHR ''+'' then (if cs = [] then None else map_option int (digits_val cs 0))
          else map_option int (digits_val s 0))"

text \<open>
  A stand-in for the float conversion on integer spellings, to be used with the order of
  the integers, and a formatter for values that are not strings.
\<close>

definition demo_float :: "pyval \<Rightarrow> error + int" where
  "demo_float v =
     (case v of
        PStr s \<Rightarrow> (case plain_decimal s of None \<Rightarrow> Inl ValueError | Some i \<Rightarrow> Inr i)
      | PInt i \<Rightarrow> Inr i
      | other \<Rightarrow> Inl TypeError)"

definition demo_fmt :: "pyval \<Rightarrow> string" where
  "demo_fmt v = ''<object>''"

definition demo_messages :: "pydict list" where
  "demo_messages =
     [[(''ts'', PStr ''5''), (''user'', PStr ''U1''), (''text'', PStr ''hi'')],
      [(''ts'', PStr ''12''), (''text'', PStr ''yo'')],
      [(''ts'', PStr ''30''), (''user'', PStr ''U2'')]]"

section \<open>Lookup after the defaults\<close>

lemma map_of_setdefault:
  "map_of (setdefault k v d) k' =
     (if k' = k \<and> map_of d k = None then Some v else map_of d k')"
  by (auto simp: setdefault_def map_add_def split: option.splits)

lemma map_of_ensure_fields:
  "map_of (ensure_fields d) k =
     (case map_of d k of
        Some v \<Rightarrow> Some v
      | None \<Rightarrow>
          if k = ''scanned_count'' \<or> k = ''alerted_count'' then Some (PInt 0)
          else if k = ''last_ts'' then Some PNone
          else if k = ''safety_status'' then Some (PStr ''failed'')
          else None)"
  by (simp add: ensure_fields_def map_of_setdefault split: option.splits)

lemma setdefault_prefix: "\<exists>extra. setdefault k v d = d @ extra"
  by (simp add: setdefault_def split: option.splits)

lemma ensure_fields_prefix: "\<exists>extra. ensure_fields d = d @ extra"
proof -
  obtain e1 where e1: "setdefault ''scanned_count'' (PInt 0) d = d @ e1"
    using setdefault_prefix by blast
  obtain e2 where e2: "setdefault ''alerted_count'' (PInt 0) (d @ e1) = (d @ e1) @ e2"
    using setdefault_prefix by blast
  obtain e3 where e3: "setdefault ''last_ts'' PNone ((d @ e1) @ e2) = ((d @ e1) @ e2) @ e3"
    using setdefault_prefix by blast
  obtain e4 where e4: "setdefault ''safety_status'' (PStr ''failed'') (((d @ e1) @ e2) @ e3) = (((d @ e1) @ e2) @ e3) @ e4"
    using setdefault_prefix by blast
  have "ensure_fields d = d @ (e1 @ e2 @ e3 @ e4)"
    unfolding ensure_fields_def e1 e2 e3 e4 by simp
  then show ?thesis by blast
qed

text \<open>
  C8. When the raw output is a dictionary, it is the dictionary the defaults are filled
  into; every key it has keeps its value, each of the four fields it lacks gets its
  default (0, 0, null, "failed"), no other key appears, and the entries it had stay in
  front, in their order.
\<close>

theorem ensure_fields_frame:
  "rebuild_output run (PDict d) = d
   \<and> (\<forall>v. map_of d k = Some v \<longrightarrow> map_of (ensure_fields d) k = Some v)
   \<and> (map_of d ''scanned_count'' = None \<longrightarrow> map_of (ensure_fields d) ''scanned_count'' = Some (PInt 0))
   \<and> (map_of d ''alerted_count'' = None \<longrightarrow> map_of (ensure_fields d) ''alerted_count'' = Some (PInt 0))
   \<and> (map_of d ''last_ts'' = None \<longrightarrow> map_of (ensure_fields d) ''last_ts'' = Some PNone)
   \<and> (map_of d ''safety_status'' = None \<longrightarrow> map_of (ensure_fields d) ''safety_status'' = Some (PStr ''failed''))
   \<and> (map_of d k = None \<and> k \<notin> {''scanned_count'', ''alerted_count'', ''last_ts'', ''safety_status''}
        \<longrightarrow> map_of (ensure_fields d) k = None)
   \<and> (\<exists>extra. ensure_fields d = d @ extra)"
proof (intro conjI)
  show "rebuild_output run (PDict d) = d" by (simp add: rebuild_output_def)
  show "\<forall>v. map_of d k = Some v \<longrightarrow> map_of (ensure_fields d) k = Some v"
    by (simp add: map_of_ensure_fields)
  show "map_of d ''scanned_count'' = None \<longrightarrow> map_of (ensure_fields d) ''scanned_count'' = Some (PInt 0)"
    by (simp add: map_of_ensure_fields)
  show "map_of d ''alerted_count'' = None \<longrightarrow> map_of (ensure_fields d) ''alerted_count'' = Some (PInt 0)"
    by (simp add: map_of_ensure_fields)
  show "map_of d ''last_ts'' = None \<longrightarrow> map_of (ensure_fields d) ''last_ts'' = Some PNone"
    by (simp add: map_of_ensure_fields)
  show "map_of d ''safety_status'' = None \<longrightarrow> map_of (ensure_fields d) ''safety_status'' = Some (PStr ''failed'')"
    by (simp add: map_of_ensure_fields)
  show "map_of d k = None \<and> k \<notin> {''scanned_count'', ''alerted_count'', ''last_ts'', ''safety_status''}
        \<longrightarrow> map_of (ensure_fields d) k = None"
    by (simp add: map_of_ensure_fields)
  show "\<exists>extra. ensure_fields d = d @ extra" by (rule ensure_fields_prefix)
qed

theorem ensure_fields_frame_witness:
  "map_of (ensure_fields [(''last_ts'', PStr ''17.5''), (''note'', PInt 1)]) ''last_ts'' = Some (PStr ''17.5'')
   \<and> map_of (ensure_fields [(''last_ts'', PStr ''17.5''), (''note'', PInt 1)]) ''scanned_count'' = Some (PInt 0)
   \<and> map_of (ensure_fields [(''last_ts'', PStr ''17.5''), (''note'', PInt 1)]) ''safety_status'' = Some (PStr ''failed'')"
  using ensure_fields_frame [of "demo_run COMPLETE PNone" "[(''last_ts'', PStr ''17.5''), (''note'', PInt 1)]" "''last_ts''"]
  by simp

section \<open>The validation shim\<close>


















lemma rebuild_output_fallback: "\<not> is_dict raw \<Longrightarrow> rebuild_output run raw = fallback_output run"
  by (cases raw) (simp_all add: rebuild_output_def)

lemma ensure_fields_fallback: "ensure_fields (fallback_output run) = fallback_output run"
  by (simp add: ensure_fields_def fallback_output_def setdefault_def Let_def)

lemma model_validate_fallback:
  "model_validate str_int (PDict (fallback_output run)) =
     (case validate_int str_int (py_or (dict_get (outputs_attrs run) ''scanned_count'' PNone) (PInt 0)) of
        None \<Rightarrow> Inl ValidationError
      | Some s \<Rightarrow>
          (case validate_int str_int (py_or (dict_get (outputs_attrs run) ''alerted_count'' PNone) (PInt 0)) of
             None \<Rightarrow> Inl ValidationError
           | Some a \<Rightarrow>
               Inr \<lparr>scanned_count = s, alerted_count = a, last_ts = None,
                    safety_status = ''failed''\<rparr>))"
  by (simp add: model_validate_def fallback_output_def Let_def split: option.splits)

lemma validate_output_fallback:
  assumes "final_output run = Some raw" and "\<not> is_dict raw"
  shows "validate_output str_int run =
           (case validate_int str_int (py_or (dict_get (outputs_attrs run) ''scanned_count'' PNone) (PInt 0)) of
              None \<Rightarrow> Inl ValidationError
            | Some s \<Rightarrow>
                (case validate_int str_int (py_or (dict_get (outputs_attrs run) ''alerted_count'' PNone) (PInt 0)) of
                   None \<Rightarrow> Inl ValidationError
                 | Some a \<Rightarrow>
                     Inr \<lparr>scanned_count = s, alerted_count = a, last_ts = None,
                          safety_status = ''completed''\<rparr>))"
proof -
  have "validate_output str_int run =
          (case model_validate str_int (PDict (fallback_output run)) of
             Inl e \<Rightarrow> Inl e
           | Inr result \<Rightarrow> Inr (result\<lparr>safety_status := ''completed''\<rparr>))"
    using assms
    by (simp add: validate_output_def rebuild_output_fallback ensure_fields_fallback)
  then show ?thesis
    by (simp add: model_validate_fallback split: option.splits)
qed

text \<open>
  C3. When the raw output is not a dictionary, the result is rebuilt from the attributes
  of the run's outputs with the fallbacks of the code: each count is the attribute of
  that name when there is one that is true, else 0; \<^verbatim>\<open>last_ts\<close> is null. So a result
  that is returned has a null \<^verbatim>\<open>last_ts\<close>, and its counts are 0 when the outputs carry no
  true attribute of those names.
\<close>

theorem fallback_zero_counts:
  assumes "final_output run = Some raw" and "\<not> is_dict raw"
  shows "rebuild_output run raw =
           [(''scanned_count'', py_or (dict_get (outputs_attrs run) ''scanned_count'' PNone) (PInt 0)),
            (''alerted_count'', py_or (dict_get (outputs_attrs run) ''alerted_count'' PNone) (PInt 0)),
            (''last_ts'', PNone),
            (''safety_status'', PStr ''failed'')]
         \<and> (\<forall>r. validate_output str_int run = Inr r \<longrightarrow> last_ts r = None)
         \<and> (\<not> truthy (dict_get (outputs_attrs run) ''scanned_count'' PNone)
              \<longrightarrow> (\<forall>r. validate_output str_int run = Inr r \<longrightarrow> scanned_count r = 0))
         \<and> (\<not> truthy (dict_get (outputs_attrs run) ''alerted_count'' PNone)
              \<longrightarrow> (\<forall>r. validate_output str_int run = Inr r \<longrightarrow> alerted_count r = 0))
         \<and> (\<not> truthy (dict_get (outputs_attrs run) ''scanned_count'' PNone)
              \<and> \<not> truthy (dict_get (outputs_attrs run) ''alerted_count'' PNone)
              \<longrightarrow> validate_output str_int run =
                    Inr \<lparr>scanned_count = 0, alerted_count = 0, last_ts = None,
                         safety_status = ''completed''\<rparr>)"
proof (intro conjI)
  show "rebuild_output run raw =
           [(''scanned_count'', py_or (dict_get (outputs_attrs run) ''scanned_count'' PNone) (PInt 0)),
            (''alerted_count'', py_or (dict_get (outputs_attrs run) ''alerted_count'' PNone) (PInt 0)),
            (''last_ts'', PNone),
            (''safety_status'', PStr ''failed'')]"
    using assms(2) by (simp add: rebuild_output_fallback fallback_output_def Let_def)
next
  show "\<forall>r. validate_output str_int run = Inr r \<longrightarrow> last_ts r = None"
    by (auto simp: validate_output_fallback [OF assms] split: option.splits)
next
  show "\<not> truthy (dict_get (outputs_attrs run) ''scanned_count'' PNone)
              \<longrightarrow> (\<forall>r. validate_output str_int run = Inr r \<longrightarrow> scanned_count r = 0)"
    by (auto simp: validate_output_fallback [OF assms] py_or_def split: option.splits)
next
  show "\<not> truthy (dict_get (outputs_attrs run) ''alerted_count'' PNone)
              \<longrightarrow> (\<forall>r. validate_output str_int run = Inr r \<longrightarrow> alerted_count r = 0)"
    by (auto simp: validate_output_fallback [OF assms] py_or_def split: option.splits)
next
  show "\<not> truthy (dict_get (outputs_attrs run) ''scanned_count'' PNone)
              \<and> \<not> truthy (dict_get (outputs_attrs run) ''alerted_count'' PNone)
              \<longrightarrow> validate_output str_int run =
                    Inr \<lparr>scanned_count = 0, alerted_count = 0, last_ts = None,
                         safety_status = ''completed''\<rparr>"
    by (simp add: validate_output_fallback [OF assms] py_or_def)
qed

theorem fallback_zero_counts_witness:
  "validate_output plain_decimal (demo_run COMPLETE (PObj ''GuardianRunOutput''))
     = Inr \<lparr>scanned_count = 0, alerted_count = 0, last_ts = None, safety_status = ''completed''\<rparr>
   \<and> validate_output plain_decimal (demo_run COMPLETE (PStr ''3 messages scanned''))
     = Inr \<lparr>scanned_count = 0, alerted_count = 0, last_ts = None, safety_status = ''completed''\<rparr>"
  using fallback_zero_counts [where run = "demo_run COMPLETE (PObj ''GuardianRunOutput'')"
      and raw = "PObj ''GuardianRunOutput''" and str_int = plain_decimal]
    fallback_zero_counts [where run = "demo_run COMPLETE (PStr ''3 messages scanned'')"
      and raw = "PStr ''3 messages scanned''" and str_int = plain_decimal]
  by (simp add: demo_run_def dict_get_def)

section \<open>The terminal state and the environment\<close>

lemma validate_output_not_plan_run_failed: "validate_output str_int run \<noteq> Inl (PlanRunFailed s)"
  by (auto simp: validate_output_def model_validate_def
      split: option.splits sum.splits pyval.splits prod.splits)

lemma run_agent_reaches_check:
  assumes "env ''PARENT_EMAIL'' = Some pe" and "pe \<noteq> []"
    and "env ''SLACK_CHANNEL_ID'' = Some ch" and "ch \<noteq> []"
    and "connect portia = None"
    and "plan portia (Prompt pe ch) = Inr pl"
    and "run_plan portia pl = Inr run"
    and "snd (await_ready portia run) = Inr r"
  shows "snd (run_agent str_int env portia) =
           (case require_complete r of Inl e \<Rightarrow> Inl e | Inr r' \<Rightarrow> validate_output str_int r')"
  using assms
  by (cases "await_ready portia run") (simp add: run_agent_def unset_or_empty_def Let_def)

text \<open>
  C5. Take a run of \<open>run_agent\<close> that gets as far as a terminal plan run \<open>r\<close>: the two
  variables are set, the client is built, the plan is made and run, and the optional wait
  (made exactly when the first state is NEED_CLARIFICATION) answers \<open>r\<close>. Then
  \<open>run_agent\<close> raises the failure of the state check if and only if the state of \<open>r\<close> is
  not COMPLETE, and the exception carries that state; with a COMPLETE state the check
  raises nothing and the result is what the validation of \<open>r\<close> gives.
\<close>

theorem run_agent_raises_iff_not_complete:
  assumes "env ''PARENT_EMAIL'' = Some pe" and "pe \<noteq> []"
    and "env ''SLACK_CHANNEL_ID'' = Some ch" and "ch \<noteq> []"
    and "connect portia = None"
    and "plan portia (Prompt pe ch) = Inr pl"
    and "run_plan portia pl = Inr run"
    and "snd (await_ready portia run) = Inr r"
  shows "((\<exists>s. snd (run_agent str_int env portia) = Inl (PlanRunFailed s)) \<longleftrightarrow> state r \<noteq> COMPLETE)
         \<and> (state r \<noteq> COMPLETE \<longrightarrow> snd (run_agent str_int env portia) = Inl (PlanRunFailed (state r)))
         \<and> (state r = COMPLETE \<longrightarrow> snd (run_agent str_int env portia) = validate_output str_int r)
         \<and> await_ready portia run =
             (if state run = NEED_CLARIFICATION then ([WaitForReady run], wait_for_ready portia run)
              else ([], Inr run))"
proof -
  have eq: "snd (run_agent str_int env portia) =
           (case require_complete r of Inl e \<Rightarrow> Inl e | Inr r' \<Rightarrow> validate_output str_int r')"
    using assms by (rule run_agent_reaches_check)
  show ?thesis
    by (simp add: eq require_complete_def validate_output_not_plan_run_failed await_ready_def)
qed

theorem run_agent_raises_iff_not_complete_witness:
  "snd (run_agent plain_decimal demo_env (demo_portia (demo_run NEED_CLARIFICATION PNone) (demo_run FAILED PNone)))
     = Inl (PlanRunFailed FAILED)
   \<and> snd (run_agent plain_decimal demo_env (demo_portia (demo_run NEED_CLARIFICATION PNone) (demo_run COMPLETE PNone)))
     = Inr \<lparr>scanned_count = 0, alerted_count = 0, last_ts = None, safety_status = ''completed''\<rparr>"
  using run_agent_raises_iff_not_complete [where str_int = plain_decimal and env = demo_env
      and pe = "''p@example.org''" and ch = "''C01''"
      and portia = "demo_portia (demo_run NEED_CLARIFICATION PNone) (demo_run FAILED PNone)"
      and pl = 7 and run = "demo_run NEED_CLARIFICATION PNone" and r = "demo_run FAILED PNone"]
    run_agent_raises_iff_not_complete [where str_int = plain_decimal and env = demo_env
      and pe = "''p@example.org''" and ch = "''C01''"
      and portia = "demo_portia (demo_run NEED_CLARIFICATION PNone) (demo_run COMPLETE PNone)"
      and pl = 7 and run = "demo_run NEED_CLARIFICATION PNone" and r = "demo_run COMPLETE PNone"]
  by (simp add: demo_env_def demo_portia_def demo_run_def await_ready_def validate_output_def
      rebuild_output_def fallback_output_def ensure_fields_def setdefault_def model_validate_def
      dict_get_def py_or_def)

text \<open>
  C6. With PORTIA_API_KEY unset or empty the script ends at import time with the
  RuntimeError of line 22, uncaught, having called nothing of the agent runtime and
  leaving the state file as it was. With PARENT_EMAIL or SLACK_CHANNEL_ID unset or empty,
  \<open>run_agent\<close> raises the RuntimeError of line 96 and has made no call to the agent
  runtime.
\<close>

theorem missing_environment_fails_early:
  "(unset_or_empty (env ''PORTIA_API_KEY'')
      \<longrightarrow> script str_int env portia io fs =
            (Some (RuntimeError ''PORTIA_API_KEY is not set. Please add it to your .env file or environment variables.''),
             [], fs))
   \<and> (unset_or_empty (env ''PARENT_EMAIL'') \<or> unset_or_empty (env ''SLACK_CHANNEL_ID'')
      \<longrightarrow> run_agent str_int env portia =
            ([], Inl (RuntimeError ''PARENT_EMAIL and SLACK_CHANNEL_ID must be set in the environment.'')))"
  by (simp add: script_def run_agent_def)

theorem missing_environment_fails_early_witness:
  "fst (script plain_decimal (demo_env(''PORTIA_API_KEY'' := None))
          (demo_portia (demo_run COMPLETE PNone) (demo_run COMPLETE PNone)) WriteOk Missing)
     = Some (RuntimeError ''PORTIA_API_KEY is not set. Please add it to your .env file or environment variables.'')
   \<and> run_agent plain_decimal (demo_env(''PARENT_EMAIL'' \<mapsto> []))
          (demo_portia (demo_run COMPLETE PNone) (demo_run COMPLETE PNone))
     = ([], Inl (RuntimeError ''PARENT_EMAIL and SLACK_CHANNEL_ID must be set in the environment.''))"
  using missing_environment_fails_early [where str_int = plain_decimal
      and env = "demo_env(''PORTIA_API_KEY'' := None)"
      and portia = "demo_portia (demo_run COMPLETE PNone) (demo_run COMPLETE PNone)"
      and io = WriteOk and fs = Missing]
    missing_environment_fails_early [where str_int = plain_decimal
      and env = "demo_env(''PARENT_EMAIL'' \<mapsto> [])"
      and portia = "demo_portia (demo_run COMPLETE PNone) (demo_run COMPLETE PNone)"
      and io = WriteOk and fs = Missing]
  by (simp add: unset_or_empty_def demo_env_def)

text \<open>
  C10. After a run that returned a result, the entry point leaves the state file as it
  was when the result's \<^verbatim>\<open>last_ts\<close> is null or the empty string, and otherwise the state
  file is what \<open>save_guardian_state\<close> makes of it with that \<^verbatim>\<open>last_ts\<close>.
\<close>

theorem state_written_only_for_nonempty_last_ts:
  assumes "run_agent str_int env portia = (cs, Inr out)"
  shows "(last_ts out = None \<or> last_ts out = Some [] \<longrightarrow> main_block str_int env portia io fs = (cs, fs))
         \<and> (\<forall>ts. last_ts out = Some ts \<and> ts \<noteq> []
              \<longrightarrow> main_block str_int env portia io fs = (cs, fst (save_guardian_state io ts fs)))"
  using assms by (auto simp: main_block_def)

theorem state_written_only_for_nonempty_last_ts_witness:
  "main_block plain_decimal demo_env
     (demo_portia (demo_run COMPLETE (PDict [(''last_ts'', PStr [])])) (demo_run COMPLETE PNone))
     WriteOk (Content ''old'')
     = ([Connect, Plan (Prompt ''p@example.org'' ''C01''), RunPlan 7], Content ''old'')"
  using state_written_only_for_nonempty_last_ts [where str_int = plain_decimal and env = demo_env
      and portia = "demo_portia (demo_run COMPLETE (PDict [(''last_ts'', PStr [])])) (demo_run COMPLETE PNone)"
      and cs = "[Connect, Plan (Prompt ''p@example.org'' ''C01''), RunPlan 7]"
      and out = "\<lparr>scanned_count = 0, alerted_count = 0, last_ts = Some [], safety_status = ''completed''\<rparr>"
      and io = WriteOk and fs = "Content ''old''"]
  by (simp add: run_agent_def demo_env_def demo_portia_def demo_run_def unset_or_empty_def
      await_ready_def require_complete_def validate_output_def rebuild_output_def
      ensure_fields_def setdefault_def model_validate_def)

section \<open>Filtering messages\<close>

lemma newer_than_filter:
  "\<forall>m \<in> set ms. ts_float to_float m \<noteq> None \<Longrightarrow>
   newer_than to_float gt lim ms = Inr (filter (is_newer to_float gt lim) ms)"
proof (induction ms)
  case Nil
  then show ?case by simp
next
  case (Cons m ms)
  then have rest: "newer_than to_float gt lim ms = Inr (filter (is_newer to_float gt lim) ms)"
    by simp
  from Cons.prems obtain v t where v: "map_of m ''ts'' = Some v" and t: "to_float v = Inr t"
    by (auto simp: ts_float_def split: option.splits sum.splits)
  have m: "is_newer to_float gt lim m = gt t lim"
    by (simp add: is_newer_def ts_float_def v t)
  show ?case
    by (simp add: v t rest m)
qed

lemma render_fields:
  "render fmt m = ''['' @ field_or m ''user'' ''?'' fmt @ ''] '' @ field_or m ''text'' [] fmt"
  by (simp add: render_def field_or_def format_value_def dict_get_def
      split: option.splits pyval.splits)

text \<open>
  C9. With an empty \<^verbatim>\<open>state_last_ts\<close>, \<open>filter_new_messages\<close> returns all the messages.
  With a non-empty one that converts to a float, and messages that each have a \<^verbatim>\<open>ts\<close>
  that converts to a float, it returns exactly the messages whose \<^verbatim>\<open>ts\<close> is above it,
  in their order. The lines are the renderings of the returned messages, joined by line
  feeds; a rendering is the user in brackets, a blank and the text, with "?" for a missing
  user and the empty string for a missing text.
\<close>

theorem filter_new_messages_spec:
  "filter_new_messages to_float gt fmt msgs [] =
     Inr \<lparr>out_list = map (render fmt) msgs, out_str = join [newline] (map (render fmt) msgs),
          new_messages = msgs\<rparr>
   \<and> (state_last_ts \<noteq> [] \<and> to_float (PStr state_last_ts) = Inr lim
        \<and> (\<forall>m \<in> set msgs. ts_float to_float m \<noteq> None)
      \<longrightarrow> filter_new_messages to_float gt fmt msgs state_last_ts =
            Inr \<lparr>out_list = map (render fmt) (filter (is_newer to_float gt lim) msgs),
                 out_str = join [newline] (map (render fmt) (filter (is_newer to_float gt lim) msgs)),
                 new_messages = filter (is_newer to_float gt lim) msgs\<rparr>)
   \<and> render fmt m = ''['' @ field_or m ''user'' ''?'' fmt @ ''] '' @ field_or m ''text'' [] fmt"
  by (simp add: filter_new_messages_def newer_than_filter render_fields Let_def)

lemma demo_ts: "\<forall>m \<in> set demo_messages. ts_float demo_float m \<noteq> None"
  by (simp add: demo_messages_def ts_float_def demo_float_def plain_decimal_def)

theorem filter_new_messages_spec_witness:
  "filter_new_messages demo_float (\<lambda>a b. b < a) demo_fmt demo_messages ''10'' =
     Inr \<lparr>out_list = [''[?] yo'', ''[U2] ''], out_str = ''[?] yo'' @ [newline] @ ''[U2] '',
          new_messages = [[(''ts'', PStr ''12''), (''text'', PStr ''yo'')],
                          [(''ts'', PStr ''30''), (''user'', PStr ''U2'')]]\<rparr>"
  using filter_new_messages_spec [of demo_float "(\<lambda>a b. b < a)" demo_fmt demo_messages "''10''" 10 "[]"]
    demo_ts
  by (simp add: demo_float_def plain_decimal_def demo_messages_def is_newer_def ts_float_def
      render_def format_value_def dict_get_def)

section \<open>The text written to the state file and its decoding\<close>

lemma hex_val_hex_digit: "n < 16 \<Longrightarrow> hex_val (hex_digit n) = Some n"
  by (auto simp: hex_val_def hex_digit_def Let_def)

lemma decode_uXXXX_escape:
  "decode_uXXXX (CHR ''0'' # CHR ''0'' # hex_digit ((of_char c :: nat) div 16) # hex_digit ((of_char c :: nat) mod 16) # rest)
     = Some (of_char c, rest)"
proof -
  have lt: "(of_char c :: nat) < 256" by (rule nat_of_char_less_256)
  then have d: "(of_char c :: nat) div 16 < 16" by (simp add: less_mult_imp_div_less)
  have m: "(of_char c :: nat) mod 16 < 16" by simp
  have z: "hex_val (CHR ''0'') = Some 0" by (simp add: hex_val_def)
  show ?thesis
    by (simp add: decode_uXXXX_def z hex_val_hex_digit [OF d] hex_val_hex_digit [OF m])
qed

lemma scanstring_escape_char:
  assumes rest: "scanstring rest = Inr (s, r)"
  shows "scanstring (json_escape_char c @ rest) = Inr (c # s, r)"
proof -
  consider (q) "c = dquote" | (b) "c = backslash" | (n) "c = newline" | (r) "c = CHR 0x0D"
    | (t) "c = CHR 0x09" | (bs) "c = CHR 0x08" | (ff) "c = CHR 0x0C"
    | (pr) "c \<noteq> dquote" "c \<noteq> backslash" "32 \<le> (of_char c :: nat)" "(of_char c :: nat) \<le> 126"
    | (esc) "c \<noteq> dquote" "c \<noteq> backslash" "c \<noteq> newline" "c \<noteq> CHR 0x0D" "c \<noteq> CHR 0x09"
        "c \<noteq> CHR 0x08" "c \<noteq> CHR 0x0C" "\<not> (32 \<le> (of_char c :: nat) \<and> (of_char c :: nat) \<le> 126)"
    by blast
  then show ?thesis
  proof cases
    case q then show ?thesis
      by (simp add: rest json_escape_char_def unescape_char_def dquote_def backslash_def)
  next
    case b then show ?thesis
      by (simp add: rest json_escape_char_def unescape_char_def dquote_def backslash_def)
  next
    case n then show ?thesis
      by (simp add: rest json_escape_char_def unescape_char_def dquote_def backslash_def newline_def)
  next
    case r then show ?thesis
      by (simp add: rest json_escape_char_def unescape_char_def dquote_def backslash_def newline_def)
  next
    case t then show ?thesis
      by (simp add: rest json_escape_char_def unescape_char_def dquote_def backslash_def newline_def)
  next
    case bs then show ?thesis
      by (simp add: rest json_escape_char_def unescape_char_def dquote_def backslash_def newline_def)
  next
    case ff then show ?thesis
      by (simp add: rest json_escape_char_def unescape_char_def dquote_def backslash_def newline_def)
  next
    case pr
    have nl: "c \<noteq> newline" "c \<noteq> CHR 0x0D" "c \<noteq> CHR 0x09" "c \<noteq> CHR 0x08" "c \<noteq> CHR 0x0C"
      using pr(3) by (auto simp: newline_def)
    have e: "json_escape_char c = [c]"
      using pr nl by (simp add: json_escape_char_def)
    show ?thesis using pr by (simp add: e rest)
  next
    case esc
    have e: "json_escape_char c = [backslash, CHR ''u'', CHR ''0'', CHR ''0'',
            hex_digit ((of_char c :: nat) div 16), hex_digit ((of_char c :: nat) mod 16)]"
      using esc by (simp add: json_escape_char_def)
    have bq: "backslash \<noteq> dquote" by (simp add: backslash_def dquote_def)
    show ?thesis
      by (simp add: e bq decode_uXXXX_escape rest)
  qed
qed

lemma scanstring_escaped:
  "scanstring (concat (map json_escape_char s) @ dquote # rest) = Inr (s, rest)"
proof (induction s)
  case Nil
  then show ?case by simp
next
  case (Cons c s)
  have "scanstring (concat (map json_escape_char (c # s)) @ dquote # rest)
        = scanstring (json_escape_char c @ (concat (map json_escape_char s) @ dquote # rest))"
    by simp
  also have "\<dots> = Inr (c # s, rest)"
    by (rule scanstring_escape_char [OF Cons.IH])
  finally show ?case .
qed


lemma json_dump_state_unfold:
  "json_dump_state ts =
     CHR ''{'' # newline # CHR '' '' # CHR '' '' # dquote #
       (concat (map json_escape_char ''last_ts'') @ dquote #
         (CHR '':'' # CHR '' '' # dquote #
           (concat (map json_escape_char ts) @ dquote # [newline, CHR ''}''])))"
  by (simp add: json_dump_state_def json_string_def)

lemma skip_ws_simps:
  "skip_ws [] = []"
  "skip_ws (newline # s) = skip_ws s"
  "skip_ws (CHR '' '' # s) = skip_ws s"
  "skip_ws (dquote # s) = dquote # s"
  "skip_ws (CHR '':'' # s) = CHR '':'' # s"
  "skip_ws (CHR ''{'' # s) = CHR ''{'' # s"
  "skip_ws (CHR ''}'' # s) = CHR ''}'' # s"
  by (simp_all add: skip_ws_def json_ws_def newline_def dquote_def)

lemma scan_once_string:
  "scan_once (Suc n) (dquote # concat (map json_escape_char s) @ dquote # rest) = Inr (PStr s, rest)"
  by (simp add: scanstring_escaped)

lemma scan_object_state:
  "scan_object (Suc (Suc n)) []
     (concat (map json_escape_char ''last_ts'') @ dquote #
         (CHR '':'' # CHR '' '' # dquote #
           (concat (map json_escape_char ts) @ dquote # [newline, CHR ''}''])))
   = Inr (PDict [(''last_ts'', PStr ts)], [])"
proof -
  have key: "scanstring (concat (map json_escape_char ''last_ts'') @ dquote #
         (CHR '':'' # CHR '' '' # dquote #
           (concat (map json_escape_char ts) @ dquote # [newline, CHR ''}''])))
      = Inr (''last_ts'', CHR '':'' # CHR '' '' # dquote #
           (concat (map json_escape_char ts) @ dquote # [newline, CHR ''}'']))"
    by (rule scanstring_escaped)
  have val: "scan_once (Suc n) (dquote # concat (map json_escape_char ts) @ dquote # [newline, CHR ''}''])
      = Inr (PStr ts, [newline, CHR ''}''])"
    by (rule scan_once_string)
  have set: "dict_set [] ''last_ts'' (PStr ts) = [(''last_ts'', PStr ts)]"
    by (simp add: dict_set_def)
  show ?thesis
    by (simp only: scan_object.simps key val set skip_ws_simps sum.case prod.case list.case
        simp_thms if_True if_False)
qed

lemma scan_once_state:
  "scan_once (Suc (Suc (Suc n))) (json_dump_state ts) = Inr (PDict [(''last_ts'', PStr ts)], [])"
proof -
  define body where "body =
     concat (map json_escape_char ''last_ts'') @ dquote #
         (CHR '':'' # CHR '' '' # dquote #
           (concat (map json_escape_char ts) @ dquote # [newline, CHR ''}'']))"
  have doc: "json_dump_state ts = CHR ''{'' # newline # CHR '' '' # CHR '' '' # dquote # body"
    unfolding body_def by (rule json_dump_state_unfold)
  have obj: "scan_object (Suc (Suc n)) [] body = Inr (PDict [(''last_ts'', PStr ts)], [])"
    unfolding body_def by (rule scan_object_state)
  have nq: "CHR ''{'' \<noteq> dquote" "dquote \<noteq> CHR ''}''"
    by (simp_all add: dquote_def)
  show ?thesis
    by (simp add: doc nq skip_ws_simps obj del: scan_object.simps)
qed

lemma json_dump_state_length: "\<exists>n. length (json_dump_state ts) = Suc (Suc n)"
  by (simp add: json_dump_state_unfold)

lemma json_loads_dump_state:
  "json_loads (json_dump_state ts) = Inr (PDict [(''last_ts'', PStr ts)])"
proof -
  obtain n where n: "length (json_dump_state ts) = Suc (Suc n)"
    using json_dump_state_length by blast
  have ws: "skip_ws (json_dump_state ts) = json_dump_state ts"
    by (simp only: json_dump_state_unfold skip_ws_simps)
  show ?thesis
    by (simp add: json_loads_def n ws scan_once_state skip_ws_simps del: scan_once.simps)
qed


lemma strip_no_space_ends:
  assumes "s \<noteq> []" and "\<not> py_isspace (hd s)" and "\<not> py_isspace (last s)"
  shows "strip s = s"
proof -
  from assms have a: "dropWhile py_isspace s = s"
    by (cases s) simp_all
  from assms have r: "rev s \<noteq> []" and h: "hd (rev s) = last s"
    by (simp_all add: hd_rev)
  from assms(3) h have "\<not> py_isspace (hd (rev s))" by simp
  with r have b: "dropWhile py_isspace (rev s) = rev s"
    by (cases "rev s") simp_all
  show ?thesis by (simp add: strip_def a b)
qed

lemma strip_json_dump_state: "strip (json_dump_state ts) = json_dump_state ts"
  by (rule strip_no_space_ends) (simp_all add: json_dump_state_def py_isspace_def)

lemma json_dump_state_nonempty: "json_dump_state ts \<noteq> []"
  by (simp add: json_dump_state_def)

lemma load_after_save:
  assumes "loads (json_dump_state ts) = Inr (PDict [(''last_ts'', PStr ts)])"
  shows "get_guardian_state loads (fst (save_guardian_state WriteOk ts fs)) = PStr ts"
  using assms
  by (simp add: save_guardian_state_def write_state_def get_guardian_state_def read_state_def
      strip_json_dump_state json_dump_state_nonempty dict_get_def)

section \<open>The state file\<close>

text \<open>
  C2. \<open>get_guardian_state\<close> answers the empty string when the state file is missing,
  when it cannot be read, when its content is empty once stripped, and when the decoder
  rejects its content; and whatever exception the body of its \<^verbatim>\<open>try\<close> block raises,
  the function returns the empty string instead of raising. This holds for every decoder.
\<close>

theorem get_guardian_state_defaults_to_empty:
  "get_guardian_state loads Missing = PStr []
   \<and> get_guardian_state loads Unreadable = PStr []
   \<and> (strip text = [] \<longrightarrow> get_guardian_state loads (Content text) = PStr [])
   \<and> ((\<exists>e. loads (strip text) = Inl e) \<longrightarrow> get_guardian_state loads (Content text) = PStr [])
   \<and> (\<forall>e. read_state loads fs = Inl e \<longrightarrow> get_guardian_state loads fs = PStr [])"
  by (auto simp: get_guardian_state_def read_state_def Let_def)

lemma strip_empty: "strip [] = []"
  by (simp add: strip_def)

lemma strip_blank: "strip [CHR '' '', newline] = []"
  by (simp add: strip_def py_isspace_def newline_def)

lemma strip_truncated: "strip (CHR ''{'' # dquote # ''last_ts'') = CHR ''{'' # dquote # ''last_ts''"
  by (simp add: strip_def py_isspace_def dquote_def)

lemma loads_truncated: "json_loads (CHR ''{'' # dquote # ''last_ts'') = Inl JSONDecodeError"
  by (simp add: json_loads_def skip_ws_def json_ws_def dquote_def backslash_def newline_def)

theorem get_guardian_state_defaults_to_empty_witness:
  "get_guardian_state json_loads Missing = PStr []
   \<and> get_guardian_state json_loads (Content []) = PStr []
   \<and> get_guardian_state json_loads (Content [CHR '' '', newline]) = PStr []
   \<and> get_guardian_state json_loads (Content (CHR ''{'' # dquote # ''last_ts'')) = PStr []"
  using get_guardian_state_defaults_to_empty [of json_loads "[CHR '' '', newline]" Missing]
    get_guardian_state_defaults_to_empty [of json_loads "[]" Missing]
    get_guardian_state_defaults_to_empty [of json_loads "CHR ''{'' # dquote # ''last_ts''" Missing]
  by (simp add: strip_empty strip_blank strip_truncated loads_truncated)

text \<open>
  C7. When the write succeeds, \<open>save_guardian_state\<close> leaves in the state file the JSON
  text of the object with the one key \<^verbatim>\<open>last_ts\<close> and the value \<^verbatim>\<open>ts\<close> (the decoder
  reads it back as that object), and prints the line that says so. When the body of its
  \<^verbatim>\<open>try\<close> block raises, it prints the error and returns: a failure to open the file
  leaves the file as it was, a failure while writing leaves a prefix of the text.
\<close>

theorem save_guardian_state_writes_or_logs:
  "save_guardian_state WriteOk ts fs = (Content (json_dump_state ts), SavedState ts)
   \<and> json_loads (json_dump_state ts) = Inr (PDict [(''last_ts'', PStr ts)])
   \<and> (\<forall>e. snd (write_state io ts fs) = Inl e
        \<longrightarrow> snd (save_guardian_state io ts fs) = ErrorSavingState e)
   \<and> save_guardian_state OpenFails ts fs = (fs, ErrorSavingState OSError)
   \<and> save_guardian_state (DumpFails n) ts fs =
       (Content (take n (json_dump_state ts)), ErrorSavingState OSError)"
  by (auto simp: save_guardian_state_def write_state_def json_loads_dump_state
      split: write_outcome.splits)

theorem save_guardian_state_writes_or_logs_witness:
  "save_guardian_state WriteOk ''17.5'' Missing
     = (Content [CHR ''{'', CHR 0x0A, CHR '' '', CHR '' '', CHR 0x22, CHR ''l'', CHR ''a'', CHR ''s'',
                 CHR ''t'', CHR ''_'', CHR ''t'', CHR ''s'', CHR 0x22, CHR '':'', CHR '' '', CHR 0x22,
                 CHR ''1'', CHR ''7'', CHR ''.'', CHR ''5'', CHR 0x22, CHR 0x0A, CHR ''}''],
        SavedState ''17.5'')
   \<and> snd (save_guardian_state OpenFails ''17.5'' Missing) = ErrorSavingState OSError"
  using save_guardian_state_writes_or_logs [of "''17.5''" Missing OpenFails 0]
  by (simp add: json_dump_state_def json_string_def json_escape_char_def dquote_def backslash_def
      newline_def write_state_def)

text \<open>
  C4. For every string \<^verbatim>\<open>ts\<close> and every state of the file before, when the write
  succeeds, \<open>get_guardian_state\<close> after \<open>save_guardian_state\<close> returns \<^verbatim>\<open>ts\<close>: the
  decoder reads the written text back as the object with the one key \<^verbatim>\<open>last_ts\<close>, and
  the same holds for any decoder that reads the written text back so.
\<close>

theorem save_then_load_round_trip:
  "get_guardian_state json_loads (fst (save_guardian_state WriteOk ts fs)) = PStr ts
   \<and> json_loads (json_dump_state ts) = Inr (PDict [(''last_ts'', PStr ts)])
   \<and> (loads (json_dump_state ts) = Inr (PDict [(''last_ts'', PStr ts)])
        \<longrightarrow> get_guardian_state loads (fst (save_guardian_state WriteOk ts fs)) = PStr ts)"
  by (simp add: load_after_save json_loads_dump_state)

theorem save_then_load_round_trip_witness:
  "get_guardian_state json_loads
     (fst (save_guardian_state WriteOk [CHR ''1'', CHR ''7'', CHR ''.'', CHR 0x22, CHR 0x5C, CHR 0x0A, CHR 0xE9]
        (Content ''old'')))
     = PStr [CHR ''1'', CHR ''7'', CHR ''.'', CHR 0x22, CHR 0x5C, CHR 0x0A, CHR 0xE9]
   \<and> get_guardian_state json_loads (fst (save_guardian_state WriteOk [] Missing)) = PStr []"
  using save_then_load_round_trip [of "[CHR ''1'', CHR ''7'', CHR ''.'', CHR 0x22, CHR 0x5C, CHR 0x0A, CHR 0xE9]" "Content ''old''" json_loads]
    save_then_load_round_trip [of "[]" Missing json_loads]
  by simp

end
